theory Spec2Isabelle
  imports Complex_Main "HOL-Library.Word"
begin

unbundle bit_operations_syntax

section \<open>Double-precision arithmetic\<close>

text \<open>
  JavaScript numbers are IEEE 754 doubles. A finite double is a rational number, and the
  sum or quotient of two doubles is the exact result rounded to the nearest double, ties
  to even: 53 significant bits, with the fixed spacing \<open>2 ^ -1074\<close> below
  \<open>2 ^ -1022\<close>. Times are modelled as such rationals. A result beyond the largest
  double is infinite in the source and is not represented here; it does not occur for a
  clock or a start time plus the duration of a buffer.
\<close>

text \<open>The number of binary digits of a positive integer.\<close>

function binary_digits :: "int \<Rightarrow> int" where
  "binary_digits n = (if n \<le> 0 then 0 else 1 + binary_digits (n div 2))"
  by pat_completeness auto
termination
  by (relation "measure nat") auto

definition pow2 :: "int \<Rightarrow> rat" where
  "pow2 e = (if 0 \<le> e then 2 ^ nat e else 1 / 2 ^ nat (- e))"

text \<open>The exponent \<open>e\<close> with \<open>2 ^ e \<le> \<bar>x\<bar> < 2 ^ (e + 1)\<close>, for \<open>x \<noteq> 0\<close>.\<close>

definition binade :: "rat \<Rightarrow> int" where
  "binade x =
     (let (p, q) = quotient_of \<bar>x\<bar>;
          e = binary_digits p - binary_digits q
      in if pow2 e \<le> \<bar>x\<bar> then e else e - 1)"

definition round_half_even :: "rat \<Rightarrow> int" where
  "round_half_even x =
     (let f = \<lfloor>x\<rfloor>; r = x - rat_of_int f
      in if r < 1 / 2 then f
         else if 1 / 2 < r then f + 1
         else if even f then f else f + 1)"

definition round_double :: "rat \<Rightarrow> rat" where
  "round_double x =
     (if x = 0 then 0
      else (let spacing = pow2 (max (binade x) (- 1022) - 52)
            in rat_of_int (round_half_even (x / spacing)) * spacing))"

definition double_add :: "rat \<Rightarrow> rat \<Rightarrow> rat" where
  "double_add x y = round_double (x + y)"

definition double_div :: "rat \<Rightarrow> rat \<Rightarrow> rat" where
  "double_div x y = round_double (x / y)"

section \<open>Errors\<close>

text \<open>
  Every exception that the modelled code or the platform calls it makes can raise.
  \<open>InvalidCharacterError\<close> is what \<open>atob\<close> throws, \<open>RangeError\<close> what the
  \<open>Int16Array\<close> constructor throws on a buffer of odd length, \<open>NotSupportedError\<close>
  what \<open>createBuffer\<close> throws, \<open>TypeError\<close> a property access on \<open>undefined\<close>,
  and \<open>Error msg\<close> is \<open>new Error(msg)\<close>.
\<close>

datatype error =
    InvalidCharacterError
  | RangeError
  | NotSupportedError
  | TypeError
  | Error string

section \<open>Platform: \<open>btoa\<close> and \<open>atob\<close>\<close>

text \<open>
  The two browser functions are the standard base64 transform (RFC 4648 alphabet, with
  padding on output; the "forgiving" decoder of the HTML standard on input). A binary
  string is a string whose code units are all at most 255, so it is a list of 8-bit
  \<open>char\<close>s here; \<open>btoa\<close> throws only on a code unit above 255, which the type
  excludes.
\<close>

definition b64_char :: "nat \<Rightarrow> char" where
  "b64_char n =
     (if n < 26 then char_of (65 + n)
      else if n < 52 then char_of (71 + n)
      else if n < 62 then char_of (n - 4)
      else if n = 62 then CHR ''+''
      else CHR ''/'')"

definition b64_index :: "char \<Rightarrow> nat option" where
  "b64_index c =
     (let k = (of_char c :: nat) in
      if 65 \<le> k \<and> k \<le> 90 then Some (k - 65)
      else if 97 \<le> k \<and> k \<le> 122 then Some (k - 71)
      else if 48 \<le> k \<and> k \<le> 57 then Some (k + 4)
      else if k = 43 then Some 62
      else if k = 47 then Some 63
      else None)"

fun btoa :: "string \<Rightarrow> string" where
  "btoa (a # b # c # rest) =
     (let x = (of_char a :: nat); y = (of_char b :: nat); z = (of_char c :: nat) in
      [b64_char (x div 4), b64_char ((x mod 4) * 16 + y div 16),
       b64_char ((y mod 16) * 4 + z div 64), b64_char (z mod 64)] @ btoa rest)"
| "btoa [a, b] =
     (let x = (of_char a :: nat); y = (of_char b :: nat) in
      [b64_char (x div 4), b64_char ((x mod 4) * 16 + y div 16),
       b64_char ((y mod 16) * 4), CHR ''=''])"
| "btoa [a] =
     (let x = (of_char a :: nat) in
      [b64_char (x div 4), b64_char ((x mod 4) * 16), CHR ''='', CHR ''=''])"
| "btoa [] = []"

definition ascii_whitespace :: "char \<Rightarrow> bool" where
  "ascii_whitespace c \<longleftrightarrow> (of_char c :: nat) \<in> {9, 10, 12, 13, 32}"

text \<open>Step 2 of the forgiving decoder: a string whose length is a multiple of four loses
  one or two trailing \<open>=\<close>.\<close>

definition strip_padding :: "string \<Rightarrow> string" where
  "strip_padding s =
     (if length s mod 4 = 0 \<and> s \<noteq> [] \<and> last s = CHR ''='' then
        (if butlast s \<noteq> [] \<and> last (butlast s) = CHR ''='' then butlast (butlast s)
         else butlast s)
      else s)"

fun b64_indices :: "string \<Rightarrow> nat list option" where
  "b64_indices [] = Some []"
| "b64_indices (c # cs) =
     (case b64_index c of
        None \<Rightarrow> None
      | Some n \<Rightarrow> (case b64_indices cs of None \<Rightarrow> None | Some ns \<Rightarrow> Some (n # ns)))"

text \<open>The bit buffer of the decoder: four sextets give three bytes; a rest of three
  sextets gives two bytes and of two sextets one byte, the surplus bits being dropped.\<close>

fun unsextets :: "nat list \<Rightarrow> string" where
  "unsextets (p # q # r # s # rest) =
     [char_of (p * 4 + q div 16), char_of ((q mod 16) * 16 + r div 4),
      char_of ((r mod 4) * 64 + s)] @ unsextets rest"
| "unsextets [p, q, r] = [char_of (p * 4 + q div 16), char_of ((q mod 16) * 16 + r div 4)]"
| "unsextets [p, q] = [char_of (p * 4 + q div 16)]"
| "unsextets _ = []"

definition atob :: "string \<Rightarrow> error + string" where
  "atob s =
     (let d = strip_padding (filter (\<lambda>c. \<not> ascii_whitespace c) s) in
      if length d mod 4 = 1 then Inl InvalidCharacterError
      else case b64_indices d of
             None \<Rightarrow> Inl InvalidCharacterError
           | Some ns \<Rightarrow> Inr (unsextets ns))"

section \<open>Audio helper functions\<close>

type_synonym byte = "8 word"

text \<open>A store into a typed array: an index outside the array is ignored.\<close>

definition typed_array_set :: "'a list \<Rightarrow> nat \<Rightarrow> 'a \<Rightarrow> 'a list" where
  "typed_array_set xs i v = (if i < length xs then xs[i := v] else xs)"

text \<open>A read from a typed array: an index outside the array gives \<open>undefined\<close>.\<close>

definition typed_array_get :: "'a list \<Rightarrow> nat \<Rightarrow> 'a option" where
  "typed_array_get xs i = (if i < length xs then Some (xs ! i) else None)"

text \<open>\<open>String.fromCharCode\<close> of a byte and \<open>charCodeAt\<close> stored into a \<open>Uint8Array\<close>.\<close>

definition fromCharCode :: "byte \<Rightarrow> char" where
  "fromCharCode b = char_of (unat b)"

definition charCode_byte :: "char \<Rightarrow> byte" where
  "charCode_byte c = of_nat (of_char c)"

text \<open>\<open>encode\<close>: the loop appends one character per byte, then \<open>btoa\<close>.\<close>

definition encode :: "byte list \<Rightarrow> string" where
  "encode bytes = btoa (fold (\<lambda>b binary. binary @ [fromCharCode b]) bytes [])"

text \<open>\<open>decode\<close>: \<open>atob\<close> may throw; the loop fills a fresh \<open>Uint8Array(len)\<close>.\<close>

definition decode :: "string \<Rightarrow> error + byte list" where
  "decode base64 =
     (case atob base64 of
        Inl e \<Rightarrow> Inl e
      | Inr binaryString \<Rightarrow>
          (let len = length binaryString in
           Inr (fold (\<lambda>i bytes. typed_array_set bytes i (charCode_byte (binaryString ! i)))
                  [0..<len] (replicate len 0))))"


subsection \<open>PCM conversion\<close>

text \<open>
  A finite \<open>Float32Array\<close> element is a dyadic rational, so a sample is a \<open>rat\<close>.
  The arithmetic of the two conversions is exact on such values: a product with
  \<open>32768 = 2 ^ 15\<close> only changes the exponent, and a 16-bit integer divided by
  \<open>32768\<close> fits the 24-bit significand of a 32-bit float. An element of a channel of an
  \<open>AudioBuffer\<close> is a \<open>rat option\<close>, \<open>None\<close> being \<open>NaN\<close> (what
  \<open>undefined / 32768.0\<close> evaluates to).
\<close>

type_synonym int16 = "16 word"

text \<open>A store of a number into an \<open>Int16Array\<close>: truncation towards zero, then
  reduction modulo \<open>2 ^ 16\<close> into the signed range.\<close>

definition trunc :: "rat \<Rightarrow> int" where
  "trunc x = (if 0 \<le> x then \<lfloor>x\<rfloor> else \<lceil>x\<rceil>)"

definition to_int16 :: "rat \<Rightarrow> int16" where
  "to_int16 x = word_of_int (trunc x)"

text \<open>\<open>new Uint8Array(int16.buffer)\<close>: the same memory seen as bytes, low byte first.\<close>

definition int16_bytes :: "int16 \<Rightarrow> byte list" where
  "int16_bytes w = [ucast w, ucast (drop_bit 8 w)]"

definition uint8_view :: "int16 list \<Rightarrow> byte list" where
  "uint8_view ws = concat (map int16_bytes ws)"

text \<open>\<open>new Int16Array(data.buffer)\<close>: throws a \<open>RangeError\<close> unless the byte length is
  a multiple of two. The byte list is the whole buffer, as it is for the array that
  \<open>decode\<close> returns.\<close>

fun int16_pairs :: "byte list \<Rightarrow> int16 list" where
  "int16_pairs (lo # hi # rest) = (ucast lo OR push_bit 8 (ucast hi)) # int16_pairs rest"
| "int16_pairs _ = []"

definition int16_view :: "byte list \<Rightarrow> error + int16 list" where
  "int16_view bytes = (if odd (length bytes) then Inl RangeError else Inr (int16_pairs bytes))"

record Blob =
  data :: string
  mimeType :: string

definition createBlob :: "rat list \<Rightarrow> Blob" where
  "createBlob samples =
     (let l = length samples;
          int16 = fold (\<lambda>i a. typed_array_set a i (to_int16 (samples ! i * 32768)))
                    [0..<l] (replicate l 0)
      in \<lparr>data = encode (uint8_view int16), mimeType = ''audio/pcm;rate=16000''\<rparr>)"

subsection \<open>Platform: \<open>AudioContext\<close> and \<open>AudioBuffer\<close>\<close>

text \<open>
  What the code reads of an audio context: its clock, and the limits inside which
  \<open>createBuffer\<close> accepts a request. The Web Audio specification requires every
  implementation to support 1 to 32 channels and sample rates from 8000 to 96000 Hz.
\<close>

record AudioContext =
  currentTime :: rat
  maxChannels :: nat
  minRate :: rat
  maxRate :: rat

record AudioBuffer =
  channels :: "rat option list list"
  sampleRate :: rat

definition frames :: "AudioBuffer \<Rightarrow> nat" where
  "frames b = (case channels b of [] \<Rightarrow> 0 | c # _ \<Rightarrow> length c)"

text \<open>\<open>AudioBuffer.duration\<close>: the double nearest to length over sample rate.\<close>

definition duration :: "AudioBuffer \<Rightarrow> rat" where
  "duration b = double_div (rat_of_nat (frames b)) (sampleRate b)"

text \<open>
  \<open>createBuffer(numberOfChannels, length, sampleRate)\<close>: the length is converted to an
  unsigned integer by truncation; a channel count, length or rate that is zero or outside
  the supported range is a \<open>NotSupportedError\<close>; the new buffer is silent.
\<close>

definition createBuffer :: "AudioContext \<Rightarrow> nat \<Rightarrow> rat \<Rightarrow> rat \<Rightarrow> error + AudioBuffer" where
  "createBuffer ctx numberOfChannels len rate =
     (let n = nat \<lfloor>len\<rfloor> in
      if numberOfChannels = 0 \<or> maxChannels ctx < numberOfChannels \<or> n = 0
         \<or> rate < minRate ctx \<or> maxRate ctx < rate
      then Inl NotSupportedError
      else Inr \<lparr>channels = replicate numberOfChannels (replicate n (Some 0)), sampleRate = rate\<rparr>)"

text \<open>The values \<open>i\<close> of a loop \<open>for (let i = 0; i < bound; i++)\<close> whose bound is a
  number that need not be an integer.\<close>

definition loop_range :: "rat \<Rightarrow> nat list" where
  "loop_range bound = [0..<nat \<lceil>bound\<rceil>]"

text \<open>\<open>dataInt16[k] / 32768.0\<close>, where \<open>dataInt16[k]\<close> is \<open>undefined\<close> outside the array.\<close>

definition int16_to_float :: "int16 option \<Rightarrow> rat option" where
  "int16_to_float v = (case v of None \<Rightarrow> None | Some w \<Rightarrow> Some (rat_of_int (sint w) / 32768))"

text \<open>
  \<open>decodeAudioData\<close>. The quotient \<open>frameCount\<close> is a number, not an integer
  division; with \<open>numChannels = 0\<close> it is infinite or \<open>NaN\<close> in the source and
  \<open>createBuffer\<close> rejects the channel count, as it does here.
\<close>

definition decodeAudioData :: "byte list \<Rightarrow> AudioContext \<Rightarrow> rat \<Rightarrow> nat \<Rightarrow> error + AudioBuffer" where
  "decodeAudioData bytes ctx rate numChannels =
     (case int16_view bytes of
        Inl e \<Rightarrow> Inl e
      | Inr dataInt16 \<Rightarrow>
          (let frameCount = rat_of_nat (length dataInt16) / rat_of_nat numChannels in
           case createBuffer ctx numChannels frameCount rate of
             Inl e \<Rightarrow> Inl e
           | Inr buffer \<Rightarrow>
               Inr (fold (\<lambda>channel buf.
                       buf\<lparr>channels := (channels buf)[channel :=
                         fold (\<lambda>i channelData.
                                 typed_array_set channelData i
                                   (int16_to_float (typed_array_get dataInt16 (i * numChannels + channel))))
                              (loop_range frameCount) (channels buf ! channel)]\<rparr>)
                     [0..<numChannels] buffer)))"

subsection \<open>Auxiliary functions for the base64 proofs\<close>

text \<open>The six-bit groups that \<open>btoa\<close> writes, and the padding it appends.\<close>

fun sextets :: "string \<Rightarrow> nat list" where
  "sextets (a # b # c # rest) =
     [of_char a div 4, (of_char a mod 4) * 16 + of_char b div 16,
      (of_char b mod 16) * 4 + of_char c div 64, of_char c mod 64] @ sextets rest"
| "sextets [a, b] =
     [of_char a div 4, (of_char a mod 4) * 16 + of_char b div 16, (of_char b mod 16) * 4]"
| "sextets [a] = [of_char a div 4, (of_char a mod 4) * 16]"
| "sextets [] = []"

fun padding :: "string \<Rightarrow> string" where
  "padding (a # b # c # rest) = padding rest"
| "padding [a, b] = ''=''"
| "padding [a] = ''==''"
| "padding [] = []"

subsection \<open>Auxiliary functions for the PCM proofs\<close>

text \<open>The interleaved samples of one channel.\<close>

definition channel_samples :: "int16 list \<Rightarrow> nat \<Rightarrow> nat \<Rightarrow> rat option list" where
  "channel_samples d nc c =
     map (\<lambda>i. Some (rat_of_int (sint (d ! (i * nc + c))) / 32768)) [0..<length d div nc]"

subsection \<open>Capture configuration and an example context\<close>

text \<open>The frame size that \<open>startRecording\<close> passes to \<open>createScriptProcessor\<close>: every
  \<open>onaudioprocess\<close> event delivers that many samples of channel 0 to \<open>createBlob\<close>.\<close>

definition bufferSize :: nat where
  "bufferSize = 4096"

text \<open>An audio context with exactly the limits that the Web Audio specification
  guarantees, its clock at five seconds.\<close>

definition example_ctx :: AudioContext where
  "example_ctx = \<lparr>currentTime = 5, maxChannels = 32, minRate = 8000, maxRate = 96000\<rparr>"

section \<open>Live session\<close>

subsection \<open>State\<close>

text \<open>
  The component keeps its live-session state in refs. Platform objects (tracks, the session
  promise, audio contexts, nodes, buffer sources) are identified by the number under which
  they were allocated; what the code does to them is appended to a trace.
\<close>

datatype effect =
    SourceStart nat rat rat
  | SourceStop nat
  | TrackStop nat
  | SessionClose nat
  | NodeConnect nat
  | NodeDisconnect nat
  | ContextClose nat

text \<open>\<open>SourceStart src when d\<close> is \<open>src.start(when)\<close> on a source whose buffer lasts
  \<open>d\<close> seconds; \<open>SessionClose p\<close> is \<open>p.then(session => session.close())\<close>.\<close>

record Playback =
  nextStartTime :: rat
  sources :: "nat list"

text \<open>
  The object in \<open>audioContextRef\<close>. A field is \<open>None\<close> when it is \<open>null\<close> or
  missing: \<open>startRecording\<close> stores \<open>null\<close> for the two nodes, and the object
  that \<open>onOpen\<close> builds by spreading a \<open>null\<close> ref has no contexts.
\<close>

record AudioRefs =
  "input" :: "nat option"
  "output" :: "nat option"
  scriptProcessor :: "nat option"
  source :: "nat option"

text \<open>
  An invocation of \<open>handleLiveMessage\<close> that is suspended at
  \<open>await decodeAudioData(...)\<close>: the settled promise it waits for, and whether its
  message carries the interruption signal, which the handler tests after it has resumed.
\<close>

record Suspended =
  decoded :: "error + AudioBuffer"
  thenInterrupted :: bool

text \<open>\<open>pending\<close> holds the suspended invocations in the order in which they resume.\<close>

record AppState =
  isRecording :: bool
  mediaStreamRef :: "nat list option"
  sessionPromiseRef :: "nat option"
  audioContextRef :: "AudioRefs option"
  audioPlaybackRef :: Playback
  pending :: "Suspended list"
  allocated :: nat
  trace :: "effect list"

subsection \<open>Messages of the live session\<close>

text \<open>
  What \<open>handleLiveMessage\<close> reads of a message for playback:
  \<open>message.serverContent?.modelTurn?.parts[0]?.inlineData?.data\<close> and
  \<open>message.serverContent?.interrupted\<close>. Every member is optional in the message type.
  The source reads \<open>parts\<close> without \<open>?.\<close>: on a model turn that has no \<open>parts\<close>
  the index \<open>[0]\<close> is taken of \<open>undefined\<close>, a \<open>TypeError\<close>.
\<close>

record Part =
  inlineData :: "string option"

record Content =
  parts :: "Part list option"

record ServerContent =
  modelTurn :: "Content option"
  interrupted :: bool

record LiveServerMessage =
  serverContent :: "ServerContent option"

definition audioData_of :: "LiveServerMessage \<Rightarrow> error + string option" where
  "audioData_of message =
     (case serverContent message of
        None \<Rightarrow> Inr None
      | Some content \<Rightarrow>
          (case modelTurn content of
             None \<Rightarrow> Inr None
           | Some turn \<Rightarrow>
               (case parts turn of
                  None \<Rightarrow> Inl TypeError
                | Some ps \<Rightarrow> (case ps of [] \<Rightarrow> Inr None | part # _ \<Rightarrow> Inr (inlineData part)))))"

definition is_interrupted :: "LiveServerMessage \<Rightarrow> bool" where
  "is_interrupted message =
     (case serverContent message of None \<Rightarrow> False | Some content \<Rightarrow> interrupted content)"

subsection \<open>Playback\<close>

definition has_output :: "AppState \<Rightarrow> bool" where
  "has_output s = (case audioContextRef s of None \<Rightarrow> False | Some refs \<Rightarrow> output refs \<noteq> None)"

text \<open>\<open>Set.add\<close> and \<open>Set.delete\<close> on a set kept in insertion order.\<close>

definition set_add :: "nat list \<Rightarrow> nat \<Rightarrow> nat list" where
  "set_add xs x = (if x \<in> set xs then xs else xs @ [x])"

definition set_delete :: "nat list \<Rightarrow> nat \<Rightarrow> nat list" where
  "set_delete xs x = filter (\<lambda>y. y \<noteq> x) xs"

text \<open>The listener for \<open>ended\<close> that \<open>handleLiveMessage\<close> registers on each source.\<close>

definition source_ended :: "nat \<Rightarrow> AppState \<Rightarrow> AppState" where
  "source_ended src s =
     s\<lparr>audioPlaybackRef := (audioPlaybackRef s)\<lparr>sources := set_delete (sources (audioPlaybackRef s)) src\<rparr>\<rparr>"

text \<open>Stop every source, clear the set, reset \<open>nextStartTime\<close>: the three statements of
  the interruption branch, which \<open>stopRecording\<close> repeats.\<close>

definition stop_playback :: "AppState \<Rightarrow> AppState" where
  "stop_playback s =
     s\<lparr>trace := trace s @ map SourceStop (sources (audioPlaybackRef s)),
       audioPlaybackRef := \<lparr>nextStartTime = 0, sources = []\<rparr>\<rparr>"

text \<open>The statements of \<open>handleLiveMessage\<close> after the audio branch, without the
  transcription branch, which only appends text to the chat and touches none of the
  state above.\<close>

definition after_audio :: "bool \<Rightarrow> AppState \<Rightarrow> AppState" where
  "after_audio intr s = (if intr then stop_playback s else s)"

text \<open>
  \<open>handleLiveMessage\<close> is an \<open>async\<close> function. A call runs it up to its only
  \<open>await\<close>, or to its end when the audio branch is not taken. \<open>outputCtx\<close> is the output
  context as it is at the call. The empty string is falsy, so empty audio data is
  skipped. \<open>decode\<close> is evaluated in the call and its exception ends the handler;
  \<open>decodeAudioData\<close> is \<open>async\<close> without an \<open>await\<close> of its own, so its promise is
  settled at once and the handler waits for it in \<open>pending\<close>.
\<close>

definition handleLiveMessage :: "AudioContext \<Rightarrow> LiveServerMessage \<Rightarrow> AppState \<Rightarrow> error option \<times> AppState" where
  "handleLiveMessage outputCtx message s =
     (case audioData_of message of
        Inl e \<Rightarrow> (Some e, s)
      | Inr None \<Rightarrow> (None, after_audio (is_interrupted message) s)
      | Inr (Some audioData) \<Rightarrow>
          if audioData \<noteq> [] \<and> has_output s then
            (let playback = audioPlaybackRef s;
                 s1 = s\<lparr>audioPlaybackRef :=
                          playback\<lparr>nextStartTime := max (nextStartTime playback) (currentTime outputCtx)\<rparr>\<rparr>
             in case decode audioData of
                  Inl e \<Rightarrow> (Some e, s1)
                | Inr bytes \<Rightarrow>
                    (None,
                     s1\<lparr>pending := pending s1 @
                          [\<lparr>decoded = decodeAudioData bytes outputCtx 24000 1,
                            thenInterrupted = is_interrupted message\<rparr>]\<rparr>))
          else (None, after_audio (is_interrupted message) s))"

text \<open>
  The rest of the oldest suspended invocation: a rejected promise is thrown; otherwise
  the source is created and started at the value that \<open>nextStartTime\<close> has now,
  \<open>nextStartTime\<close> is advanced by the duration in double arithmetic, the source joins
  the set, and the interruption signal of the message is tested.
\<close>

definition handleLiveMessage_resume :: "AppState \<Rightarrow> error option \<times> AppState" where
  "handleLiveMessage_resume s =
     (case pending s of
        [] \<Rightarrow> (None, s)
      | first # rest \<Rightarrow>
          (let s1 = s\<lparr>pending := rest\<rparr> in
           case decoded first of
             Inl e \<Rightarrow> (Some e, s1)
           | Inr audioBuffer \<Rightarrow>
               (let playback = audioPlaybackRef s1;
                    src = allocated s1;
                    startAt = nextStartTime playback
                in (None,
                    after_audio (thenInterrupted first)
                      (s1\<lparr>allocated := Suc src,
                          trace := trace s1 @ [SourceStart src startAt (duration audioBuffer)],
                          audioPlaybackRef :=
                            \<lparr>nextStartTime = double_add startAt (duration audioBuffer),
                             sources = set_add (sources playback) src\<rparr>\<rparr>)))))"

text \<open>
  A run of the session: calls of the handler, resumptions of suspended invocations and
  \<open>ended\<close> events, in any order. An exception in a handler ends that handler only.
\<close>

datatype event = Message AudioContext LiveServerMessage | Resume | Ended nat

fun deliver :: "event \<Rightarrow> AppState \<Rightarrow> AppState" where
  "deliver (Message outputCtx message) s = snd (handleLiveMessage outputCtx message s)"
| "deliver Resume s = snd (handleLiveMessage_resume s)"
| "deliver (Ended src) s = source_ended src s"

definition run :: "event list \<Rightarrow> AppState \<Rightarrow> AppState" where
  "run events s = fold deliver events s"






subsection \<open>The schedule that the specification describes\<close>

text \<open>
  What a message is to the playback schedule: a segment of some duration arriving at
  some clock, audio that cannot be decoded arriving at some clock, or nothing to play.
  \<open>hasOutput\<close> is whether the session has an output context.
\<close>

datatype arrival = Segment rat rat | Undecodable rat | Silent

definition arrival_of :: "bool \<Rightarrow> AudioContext \<times> LiveServerMessage \<Rightarrow> arrival" where
  "arrival_of hasOutput cm =
     (case audioData_of (snd cm) of
        Inl e \<Rightarrow> Silent
      | Inr None \<Rightarrow> Silent
      | Inr (Some audioData) \<Rightarrow>
          if audioData \<noteq> [] \<and> hasOutput then
            (case decode audioData of
               Inl e \<Rightarrow> Undecodable (currentTime (fst cm))
             | Inr bytes \<Rightarrow>
                 (case decodeAudioData bytes (fst cm) 24000 1 of
                    Inl e \<Rightarrow> Undecodable (currentTime (fst cm))
                  | Inr audioBuffer \<Rightarrow> Segment (currentTime (fst cm)) (duration audioBuffer)))
          else Silent)"

text \<open>
  The specification's steps over a list of arrivals: start at
  \<open>max(nextStartTime, now)\<close>, then advance \<open>nextStartTime\<close> to the start plus the
  duration. Sources are numbered from \<open>src\<close> in arrival order. Audio that cannot be
  decoded has raised \<open>nextStartTime\<close> to its clock and starts nothing.
\<close>

fun schedule :: "nat \<Rightarrow> rat \<Rightarrow> arrival list \<Rightarrow> effect list" where
  "schedule src nst [] = []"
| "schedule src nst (Segment now d # rest) =
     SourceStart src (max nst now) d # schedule (Suc src) (double_add (max nst now) d) rest"
| "schedule src nst (Undecodable now # rest) = schedule src (max nst now) rest"
| "schedule src nst (Silent # rest) = schedule src nst rest"

fun schedule_end :: "rat \<Rightarrow> arrival list \<Rightarrow> rat" where
  "schedule_end nst [] = nst"
| "schedule_end nst (Segment now d # rest) = schedule_end (double_add (max nst now) d) rest"
| "schedule_end nst (Undecodable now # rest) = schedule_end (max nst now) rest"
| "schedule_end nst (Silent # rest) = schedule_end nst rest"

subsection \<open>Session lifecycle\<close>

text \<open>
  The \<open>onOpen\<close> callback of \<open>startRecording\<close>: it creates the two capture nodes,
  connects them, and stores
  \<open>{ ...audioContextRef.current, scriptProcessor, source }\<close>. Spreading \<open>null\<close>
  contributes no field. \<open>createMediaStreamSource\<close> throws a \<open>TypeError\<close> when there is
  no stream.
\<close>

definition onOpen :: "AppState \<Rightarrow> error option \<times> AppState" where
  "onOpen s =
     (case mediaStreamRef s of
        None \<Rightarrow> (Some TypeError, s)
      | Some tracks \<Rightarrow>
          (let src = allocated s; processor = Suc (allocated s);
               spread = (case audioContextRef s of
                           None \<Rightarrow> \<lparr>input = None, output = None, scriptProcessor = None, source = None\<rparr>
                         | Some refs \<Rightarrow> refs)
           in (None,
               s\<lparr>allocated := Suc (Suc (allocated s)),
                 trace := trace s @ [NodeConnect src, NodeConnect processor],
                 audioContextRef := Some (spread\<lparr>scriptProcessor := Some processor, source := Some src\<rparr>)\<rparr>)))"

text \<open>
  \<open>stopRecording\<close>, statement by statement. \<open>track.stop()\<close>, \<open>disconnect()\<close>,
  \<open>close()\<close> and \<open>stop()\<close> on a started source do not throw; \<open>.input.close()\<close> on
  an object without \<open>input\<close> is a \<open>TypeError\<close>, and the function has no handler, so the
  statements after it are not run.
\<close>

definition stopRecording :: "AppState \<Rightarrow> error option \<times> AppState" where
  "stopRecording s =
     (let s1 = s\<lparr>isRecording := False\<rparr>;
          s2 = (case mediaStreamRef s1 of
                  None \<Rightarrow> s1
                | Some tracks \<Rightarrow> s1\<lparr>trace := trace s1 @ map TrackStop tracks\<rparr>);
          s3 = (case sessionPromiseRef s2 of
                  None \<Rightarrow> s2
                | Some p \<Rightarrow> s2\<lparr>trace := trace s2 @ [SessionClose p], sessionPromiseRef := None\<rparr>)
      in case audioContextRef s3 of
           None \<Rightarrow> (None, stop_playback s3)
         | Some refs \<Rightarrow>
             (let s4 = (case scriptProcessor refs of
                          None \<Rightarrow> s3
                        | Some n \<Rightarrow> s3\<lparr>trace := trace s3 @ [NodeDisconnect n]\<rparr>);
                  s5 = (case source refs of
                          None \<Rightarrow> s4
                        | Some n \<Rightarrow> s4\<lparr>trace := trace s4 @ [NodeDisconnect n]\<rparr>)
              in case input refs of
                   None \<Rightarrow> (Some TypeError, s5)
                 | Some i \<Rightarrow>
                     (let s6 = s5\<lparr>trace := trace s5 @ [ContextClose i]\<rparr>
                      in case output refs of
                           None \<Rightarrow> (Some TypeError, s6)
                         | Some out \<Rightarrow>
                             (None,
                              stop_playback
                                (s6\<lparr>trace := trace s6 @ [ContextClose out],
                                    audioContextRef := None\<rparr>)))))"

text \<open>The states that the declared type of \<open>audioContextRef\<close> describes: the ref is
  \<open>null\<close> or holds both contexts.\<close>

definition well_typed :: "AppState \<Rightarrow> bool" where
  "well_typed s =
     (case audioContextRef s of
        None \<Rightarrow> True
      | Some refs \<Rightarrow> input refs \<noteq> None \<and> output refs \<noteq> None)"


definition connecting_state :: AppState where
  "connecting_state =
     \<lparr>isRecording = True, mediaStreamRef = Some [0], sessionPromiseRef = Some 3,
      audioContextRef = Some \<lparr>input = Some 1, output = Some 2, scriptProcessor = None, source = None\<rparr>,
      audioPlaybackRef = \<lparr>nextStartTime = 0, sources = []\<rparr>,
      pending = [], allocated = 4, trace = []\<rparr>"

text \<open>\<open>connecting_state\<close> after the user stopped the recording before the session had
  opened, and the session then called \<open>onOpen\<close>.\<close>

definition late_open_state :: AppState where
  "late_open_state = snd (onOpen (snd (stopRecording connecting_state)))"


subsection \<open>Auxiliary notions for the scheduling proofs\<close>





section \<open>Video generation\<close>

text \<open>
  The hosted service is the environment of \<open>generateVideo\<close>: the answer of
  \<open>generateVideos\<close> to the request, the answer of the \<open>k\<close>-th call of
  \<open>getVideosOperation\<close>, the answer of \<open>fetch\<close> to a URL, and the URL that
  \<open>URL.createObjectURL\<close> makes for a blob. An answer \<open>Inl e\<close> is a rejected promise.
  The ten-second pause between two polls is not modelled.
\<close>

record VideoRequest =
  model :: string
  prompt :: string
  image_opt :: "(string \<times> string) option"
  numberOfVideos :: nat
  resolution :: string
  aspectRatio :: string

text \<open>\<open>uri\<close> is \<open>operation.response?.generatedVideos?.[0]?.video?.uri\<close>.\<close>

record Operation =
  "done" :: bool
  uri :: "string option"

record HttpResponse =
  ok :: bool
  statusText :: string
  blob :: "error + string"

record VideoService =
  generateVideos :: "VideoRequest \<Rightarrow> error + Operation"
  getVideosOperation :: "nat \<Rightarrow> error + Operation"
  fetch :: "string \<Rightarrow> error + HttpResponse"
  createObjectURL :: "string \<Rightarrow> string"

definition progressMessages :: "string list" where
  "progressMessages =
     [''Composing the visual narrative...'', ''Rendering the final frames...'',
      ''Applying cinematic touches...'', ''Almost there...'']"

text \<open>
  The loop \<open>while (!operation.done)\<close>. It has no bound: the result is \<open>None\<close> when the
  job never reaches a done state. \<open>messageIndex\<close> counts the polls made so far;
  \<open>progress\<close> is the list of messages passed to \<open>onProgress\<close>.
\<close>

partial_function (option) poll_loop ::
  "(nat \<Rightarrow> error + Operation) \<Rightarrow> nat \<Rightarrow> Operation \<Rightarrow> string list
     \<Rightarrow> ((error + Operation) \<times> string list) option" where
  "poll_loop getOperation messageIndex operation progress =
     (if done operation then Some (Inr operation, progress)
      else
        (let progress' = progress @ [progressMessages ! (messageIndex mod length progressMessages)]
         in case getOperation messageIndex of
              Inl e \<Rightarrow> Some (Inl e, progress')
            | Inr operation' \<Rightarrow> poll_loop getOperation (Suc messageIndex) operation' progress'))"

declare poll_loop.simps [code]

text \<open>What follows the loop: the link, the download, the object URL. The empty string
  is falsy, as \<open>undefined\<close> is.\<close>

definition download :: "VideoService \<Rightarrow> string \<Rightarrow> Operation \<Rightarrow> string list \<Rightarrow> (error + string) \<times> string list" where
  "download service apiKey operation progress =
     (let progress1 = progress @ [''Video generation complete!''] in
      case uri operation of
        None \<Rightarrow> (Inl (Error ''Video generation failed or returned no link.''), progress1)
      | Some downloadLink \<Rightarrow>
          if downloadLink = [] then
            (Inl (Error ''Video generation failed or returned no link.''), progress1)
          else
            (let progress2 = progress1 @ [''Fetching your video...''] in
             case fetch service (downloadLink @ ''&key='' @ apiKey) of
               Inl e \<Rightarrow> (Inl e, progress2)
             | Inr response \<Rightarrow>
                 if \<not> ok response then
                   (Inl (Error (''Failed to download video: '' @ statusText response)), progress2)
                 else
                   (case blob response of
                      Inl e \<Rightarrow> (Inl e, progress2)
                    | Inr videoBlob \<Rightarrow> (Inr (createObjectURL service videoBlob), progress2))))"

definition generateVideo ::
  "VideoService \<Rightarrow> string \<Rightarrow> string \<Rightarrow> string \<Rightarrow> (string \<times> string) option
     \<Rightarrow> ((error + string) \<times> string list) option" where
  "generateVideo service apiKey userPrompt ratio img =
     (let progress = [''Warming up the creativity engines...''] in
      case generateVideos service
             \<lparr>model = ''veo-3.1-fast-generate-preview'', prompt = userPrompt, image_opt = img,
              numberOfVideos = 1, resolution = ''720p'', aspectRatio = ratio\<rparr> of
        Inl e \<Rightarrow> Some (Inl e, progress)
      | Inr operation \<Rightarrow>
          (case poll_loop (getVideosOperation service) 0 operation progress of
             None \<Rightarrow> None
           | Some (Inl e, progress') \<Rightarrow> Some (Inl e, progress')
           | Some (Inr finished, progress') \<Rightarrow> Some (download service apiKey finished progress')))"

text \<open>The operation that the loop holds after \<open>k\<close> polls, when none of them failed.\<close>

fun operation_after :: "(nat \<Rightarrow> error + Operation) \<Rightarrow> Operation \<Rightarrow> nat \<Rightarrow> Operation option" where
  "operation_after getOperation operation 0 = Some operation"
| "operation_after getOperation operation (Suc k) =
     (case operation_after getOperation operation k of
        None \<Rightarrow> None
      | Some previous \<Rightarrow>
          (case getOperation k of Inl e \<Rightarrow> None | Inr operation' \<Rightarrow> Some operation'))"

text \<open>A service whose job is done at the second poll, with a link that downloads.\<close>

definition example_service :: VideoService where
  "example_service =
     \<lparr>generateVideos = (\<lambda>request. Inr \<lparr>done = False, uri = None\<rparr>),
      getVideosOperation =
        (\<lambda>k. if k = 0 then Inr \<lparr>done = False, uri = None\<rparr>
              else Inr \<lparr>done = True, uri = Some ''https://video/1?alt=media''\<rparr>),
      fetch = (\<lambda>url. Inr \<lparr>ok = True, statusText = ''OK'', blob = Inr ''mp4''\<rparr>),
      createObjectURL = (\<lambda>b. ''blob:'' @ b)\<rparr>"

section \<open>API-key selection gate\<close>

text \<open>
  \<open>window.aistudio\<close> is the environment of \<open>ApiKeySelector\<close>. A member is \<open>None\<close>
  when it is not a function; otherwise it is the outcome of calling it, \<open>Inl e\<close> for a
  call that throws or whose promise is rejected.
\<close>

record AIStudio =
  hasSelectedApiKey :: "(error + bool) option"
  openSelectKey :: "(error + unit) option"

datatype host_call = HasSelectedApiKey | OpenSelectKey

text \<open>The two state variables of the component, the arguments with which it has called
  \<open>onKeySelectionChange\<close>, the calls it has made to the host, and what it has logged.\<close>

record SelectorState =
  isKeySelected :: bool
  isChecking :: bool
  reported :: "bool list"
  hostCalls :: "host_call list"
  consoleErrors :: "string list"

text \<open>\<open>setIsKeySelected(v); onKeySelectionChange(v);\<close>\<close>

definition report :: "bool \<Rightarrow> SelectorState \<Rightarrow> SelectorState" where
  "report v s = s\<lparr>isKeySelected := v, reported := reported s @ [v]\<rparr>"

definition checkApiKey :: "AIStudio option \<Rightarrow> SelectorState \<Rightarrow> SelectorState" where
  "checkApiKey aistudio s =
     (let tried =
            (case aistudio of
               None \<Rightarrow> report False s
             | Some host \<Rightarrow>
                 (case hasSelectedApiKey host of
                    None \<Rightarrow> report False s
                  | Some outcome \<Rightarrow>
                      (let s1 = s\<lparr>hostCalls := hostCalls s @ [HasSelectedApiKey]\<rparr>
                       in case outcome of
                            Inr hasKey \<Rightarrow> report hasKey s1
                          | Inl e \<Rightarrow>
                              report False
                                (s1\<lparr>consoleErrors := consoleErrors s1 @ [''Error checking for API key:'']\<rparr>))))
      in tried\<lparr>isChecking := False\<rparr>)"

definition handleSelectKey :: "AIStudio option \<Rightarrow> SelectorState \<Rightarrow> SelectorState" where
  "handleSelectKey aistudio s =
     (case aistudio of
        None \<Rightarrow> s
      | Some host \<Rightarrow>
          (case openSelectKey host of
             None \<Rightarrow> s
           | Some outcome \<Rightarrow>
               (let s1 = s\<lparr>hostCalls := hostCalls s @ [OpenSelectKey]\<rparr>
                in case outcome of
                     Inr u \<Rightarrow> report True s1
                   | Inl e \<Rightarrow>
                       s1\<lparr>consoleErrors := consoleErrors s1 @ [''Error opening API key selection:'']\<rparr>)))"

text \<open>The component as it is mounted.\<close>

definition initial_selector :: SelectorState where
  "initial_selector =
     \<lparr>isKeySelected = False, isChecking = True, reported = [], hostCalls = [], consoleErrors = []\<rparr>"

section \<open>Base64 round trip\<close>

lemma b64_index_char: "n < 64 \<Longrightarrow> b64_index (b64_char n) = Some n"
  by (auto simp: b64_index_def b64_char_def Let_def)

lemma of_char_b64_char:
  "n < 64 \<Longrightarrow> (of_char (b64_char n) :: nat) \<notin> {9, 10, 12, 13, 32, 61}"
  by (auto simp: b64_char_def)

lemma b64_char_not_pad: "n < 64 \<Longrightarrow> b64_char n \<noteq> CHR ''=''"
  using of_char_b64_char [of n] by auto

lemma b64_char_not_ws: "n < 64 \<Longrightarrow> \<not> ascii_whitespace (b64_char n)"
  using of_char_b64_char [of n] by (auto simp: ascii_whitespace_def)

lemma pad_not_ws: "\<not> ascii_whitespace (CHR ''='')"
  by (simp add: ascii_whitespace_def)

lemma of_char_less: "(of_char c :: nat) < 256"
  by (metis of_char_mod_256 mod_less_divisor zero_less_numeral)

lemma sextet_lt:
  fixes x y :: nat
  assumes "x < 256" and "y < 256"
  shows "x div 4 < 64" and "x mod 4 * 16 + y div 16 < 64" and "x mod 16 * 4 + y div 64 < 64"
    and "x mod 16 * 4 < 64" and "x mod 4 * 16 < 64" and "x mod 64 < 64"
  using assms by simp_all

lemma sextets_bound: "n \<in> set (sextets s) \<Longrightarrow> n < 64"
proof (induction s arbitrary: n rule: sextets.induct)
  case (1 a b c rest)
  note lt = of_char_less [of a] of_char_less [of b] of_char_less [of c]
  from "1.prems" have "n \<in> {of_char a div 4, (of_char a mod 4) * 16 + of_char b div 16,
      (of_char b mod 16) * 4 + of_char c div 64, of_char c mod 64} \<or> n \<in> set (sextets rest)"
    by simp
  then show ?case
    using "1.IH" sextet_lt [OF lt(1) lt(2)] sextet_lt [OF lt(2) lt(3)] sextet_lt [OF lt(3) lt(3)]
    by blast
next
  case (2 a b)
  note lt = of_char_less [of a] of_char_less [of b]
  from "2.prems" have "n \<in> {of_char a div 4, (of_char a mod 4) * 16 + of_char b div 16,
      (of_char b mod 16) * 4}"
    by simp
  then show ?case
    using sextet_lt [OF lt(1) lt(2)] sextet_lt [OF lt(2) lt(2)]
    by blast
next
  case (3 a)
  note lt = of_char_less [of a]
  from "3.prems" have "n \<in> {of_char a div 4, (of_char a mod 4) * 16}"
    by simp
  then show ?case
    using sextet_lt [OF lt lt]
    by blast
qed simp

lemma btoa_sextets: "btoa s = map b64_char (sextets s) @ padding s"
  by (induction s rule: sextets.induct) (simp_all add: Let_def)

lemma padding_cases: "padding s = [] \<or> padding s = ''='' \<or> padding s = ''==''"
  by (induction s rule: padding.induct) simp_all

lemma length_sextets: "length (sextets s) mod 4 \<noteq> 1"
  by (induction s rule: sextets.induct) (simp_all add: mod_Suc)

lemma length_btoa: "length (btoa s) mod 4 = 0"
  by (induction s rule: btoa.induct) (simp_all add: Let_def)

lemma filter_btoa: "filter (\<lambda>c. \<not> ascii_whitespace c) (btoa s) = btoa s"
proof -
  have "\<not> ascii_whitespace c" if "c \<in> set (btoa s)" for c
  proof -
    from that consider n where "n \<in> set (sextets s)" "c = b64_char n" | "c \<in> set (padding s)"
      unfolding btoa_sextets by auto
    then show ?thesis
    proof cases
      case 1
      then show ?thesis using sextets_bound b64_char_not_ws by blast
    next
      case 2
      then have "c = CHR ''=''" using padding_cases [of s] by auto
      then show ?thesis by (simp add: pad_not_ws)
    qed
  qed
  then show ?thesis by (simp add: filter_id_conv)
qed

lemma strip_padding_append:
  assumes "p = [] \<or> p = ''='' \<or> p = ''==''" and "length (xs @ p) mod 4 = 0"
    and "xs \<noteq> [] \<Longrightarrow> last xs \<noteq> CHR ''=''"
  shows "strip_padding (xs @ p) = xs"
proof -
  from assms(1) consider "p = []" | "p = ''=''" | "p = ''==''" by blast
  then show ?thesis
  proof cases
    case 1
    with assms(3) show ?thesis by (auto simp: strip_padding_def)
  next
    case 2
    with assms(2,3) show ?thesis by (auto simp: strip_padding_def)
  next
    case 3
    have b: "butlast (xs @ [CHR ''='', CHR ''='']) = xs @ [CHR ''='']"
      by (simp add: butlast_append)
    from assms(2) show ?thesis unfolding 3
      by (simp add: strip_padding_def b)
  qed
qed

lemma strip_padding_btoa: "strip_padding (btoa s) = map b64_char (sextets s)"
proof -
  have "length (map b64_char (sextets s) @ padding s) mod 4 = 0"
    using length_btoa [of s] by (simp only: btoa_sextets)
  moreover have "last (map b64_char (sextets s)) \<noteq> CHR ''=''" if "map b64_char (sextets s) \<noteq> []"
  proof -
    from that have ne: "sextets s \<noteq> []" by simp
    then have "last (sextets s) \<in> set (sextets s)" by simp
    then have "last (sextets s) < 64" by (rule sextets_bound)
    then show ?thesis using ne by (simp add: last_map b64_char_not_pad)
  qed
  ultimately show ?thesis
    unfolding btoa_sextets using padding_cases [of s] by (intro strip_padding_append)
qed

lemma b64_indices_map: "\<forall>n \<in> set ns. n < 64 \<Longrightarrow> b64_indices (map b64_char ns) = Some ns"
  by (induction ns) (simp_all add: b64_index_char)

lemma unsextets_sextets: "unsextets (sextets s) = s"
proof (induction s rule: sextets.induct)
  case (1 a b c rest)
  define x y z where "x = (of_char a :: nat)" and "y = (of_char b :: nat)" and "z = (of_char c :: nat)"
  have lt: "x < 256" "y < 256" "z < 256" unfolding x_def y_def z_def by (rule of_char_less)+
  have "x div 4 * 4 + (x mod 4 * 16 + y div 16) div 16 = x" using lt by simp
  moreover have "(x mod 4 * 16 + y div 16) mod 16 * 16 + (y mod 16 * 4 + z div 64) div 4 = y"
    using lt by simp
  moreover have "(y mod 16 * 4 + z div 64) mod 4 * 64 + z mod 64 = z" using lt by simp
  ultimately show ?case using 1
    by (simp add: Let_def x_def [symmetric] y_def [symmetric] z_def [symmetric])
       (simp add: x_def y_def z_def)
next
  case (2 a b)
  define x y where "x = (of_char a :: nat)" and "y = (of_char b :: nat)"
  have lt: "x < 256" "y < 256" unfolding x_def y_def by (rule of_char_less)+
  have "x div 4 * 4 + (x mod 4 * 16 + y div 16) div 16 = x" using lt by simp
  moreover have "(x mod 4 * 16 + y div 16) mod 16 * 16 + (y mod 16 * 4) div 4 = y"
    using lt by simp
  ultimately show ?case
    by (simp add: Let_def x_def [symmetric] y_def [symmetric])
       (simp add: x_def y_def)
next
  case (3 a)
  define x where "x = (of_char a :: nat)"
  have "x div 4 * 4 + (x mod 4 * 16) div 16 = x" by simp
  then show ?case
    by (simp add: Let_def x_def [symmetric]) (simp add: x_def)
qed simp

lemma atob_btoa: "atob (btoa s) = Inr s"
proof -
  have "length (sextets s) mod 4 \<noteq> 1" by (rule length_sextets)
  then show ?thesis
    using sextets_bound [of _ s]
    by (simp add: atob_def filter_btoa strip_padding_btoa b64_indices_map unsextets_sextets)
qed

lemma fold_snoc_map: "fold (\<lambda>b acc. acc @ [f b]) bs acc = acc @ map f bs"
  by (induction bs arbitrary: acc) simp_all

lemma fold_fill:
  "k \<le> length xs \<Longrightarrow>
   fold (\<lambda>i a. typed_array_set a i (f i)) [0..<k] xs = map f [0..<k] @ drop k xs"
proof (induction k)
  case 0
  then show ?case by simp
next
  case (Suc k)
  then have "k < length xs" by simp
  then have "(map f [0..<k] @ drop k xs)[k := f k] = map f [0..<k] @ f k # drop (Suc k) xs"
    by (simp add: list_update_append Cons_nth_drop_Suc [symmetric] )
  with Suc show ?case by (simp add: typed_array_set_def)
qed

lemma charCode_fromCharCode: "charCode_byte (fromCharCode b) = b"
  using unsigned_less [of b, where 'a = nat] by (simp add: charCode_byte_def fromCharCode_def)

lemma map_nth_upt: "map (\<lambda>i. f (xs ! i)) [0..<length xs] = map f xs"
  by (rule nth_equalityI) simp_all

lemma decode_encode: "decode (encode b) = Inr b"
proof -
  have "fold (\<lambda>i bytes. typed_array_set bytes i (charCode_byte (s ! i))) [0..<length s]
          (replicate (length s) 0) = map charCode_byte s" for s
    using fold_fill [of "length s" "replicate (length s) 0" "\<lambda>i. charCode_byte (s ! i)"]
    by (simp add: map_nth_upt)
  then show ?thesis
    by (simp add: decode_def encode_def fold_snoc_map atob_btoa Let_def o_def charCode_fromCharCode
          del: length_map)
qed

section \<open>PCM conversion\<close>

lemma int16_bytes_inverse:
  "(ucast (ucast w :: byte) :: int16) OR push_bit 8 (ucast (ucast (drop_bit 8 w) :: byte)) = w"
  by (rule bit_word_eqI) (auto simp: bit_simps)

lemma int16_pairs_uint8_view: "int16_pairs (uint8_view ws) = ws"
  by (induction ws) (simp_all add: uint8_view_def int16_bytes_def int16_bytes_inverse)

lemma length_uint8_view: "length (uint8_view ws) = 2 * length ws"
  by (induction ws) (simp_all add: uint8_view_def int16_bytes_def)

lemma length_int16_pairs: "length (int16_pairs bs) = length bs div 2"
  by (induction bs rule: int16_pairs.induct) simp_all

lemma fold_fill_over:
  "length xs \<le> m \<Longrightarrow>
   fold (\<lambda>i a. typed_array_set a i (f i)) [0..<m] xs = map f [0..<length xs]"
proof (induction m)
  case 0
  then show ?case by simp
next
  case (Suc m)
  show ?case
  proof (cases "length xs \<le> m")
    case True
    with Suc.IH show ?thesis by (simp add: typed_array_set_def)
  next
    case False
    with Suc.prems have "length xs = Suc m" by simp
    then show ?thesis using fold_fill [of "Suc m" xs f] by simp
  qed
qed

lemma createBlob_data:
  "data (createBlob samples) = encode (uint8_view (map (\<lambda>x. to_int16 (x * 32768)) samples))"
  using fold_fill [of "length samples" "replicate (length samples) 0"
      "\<lambda>i. to_int16 (samples ! i * 32768)"]
    map_nth_upt [of "\<lambda>x. to_int16 (x * 32768)" samples]
  by (simp add: createBlob_def Let_def)

lemma fold_channels:
  "n \<le> length (channels b) \<Longrightarrow>
   fold (\<lambda>channel buf. buf\<lparr>channels := (channels buf)[channel := g channel (channels buf ! channel)]\<rparr>)
     [0..<n] b
   = b\<lparr>channels := map (\<lambda>c. g c (channels b ! c)) [0..<n] @ drop n (channels b)\<rparr>"
proof (induction n)
  case 0
  then show ?case by simp
next
  case (Suc n)
  then have n: "n < length (channels b)" by simp
  have "(map (\<lambda>c. g c (channels b ! c)) [0..<n] @ drop n (channels b))[n := v]
        = map (\<lambda>c. g c (channels b ! c)) [0..<n] @ v # drop (Suc n) (channels b)" for v
    using n by (simp add: list_update_append Cons_nth_drop_Suc [symmetric])
  moreover have "(map (\<lambda>c. g c (channels b ! c)) [0..<n] @ drop n (channels b)) ! n = channels b ! n"
    using n by (simp add: nth_append)
  ultimately show ?case using Suc by simp
qed


lemma floor_frameCount: "nat \<lfloor>rat_of_nat L / rat_of_nat nc\<rfloor> = L div nc"
  by (simp add: floor_divide_of_nat_eq)

lemma ceiling_frameCount: "L div nc \<le> nat \<lceil>rat_of_nat L / rat_of_nat nc\<rceil>"
proof -
  have "\<lfloor>rat_of_nat L / rat_of_nat nc\<rfloor> \<le> \<lceil>rat_of_nat L / rat_of_nat nc\<rceil>"
    by (rule floor_le_ceiling)
  then have "nat \<lfloor>rat_of_nat L / rat_of_nat nc\<rfloor> \<le> nat \<lceil>rat_of_nat L / rat_of_nat nc\<rceil>"
    by (rule nat_mono)
  then show ?thesis by (simp only: floor_frameCount)
qed

lemma inner_loop:
  assumes "c < nc"
  shows "fold (\<lambda>i channelData. typed_array_set channelData i
                 (int16_to_float (typed_array_get d (i * nc + c))))
           (loop_range (rat_of_nat (length d) / rat_of_nat nc))
           (replicate (length d div nc) z)
         = channel_samples d nc c"
proof -
  have in_range: "i * nc + c < length d" if "i < length d div nc" for i
  proof -
    from that have "Suc i \<le> length d div nc" by simp
    then have "Suc i * nc \<le> length d div nc * nc" by (rule mult_le_mono1)
    also have "\<dots> \<le> length d" by simp
    finally show ?thesis using assms by simp
  qed
  have "fold (\<lambda>i channelData. typed_array_set channelData i
                 (int16_to_float (typed_array_get d (i * nc + c))))
           (loop_range (rat_of_nat (length d) / rat_of_nat nc))
           (replicate (length d div nc) z)
        = map (\<lambda>i. int16_to_float (typed_array_get d (i * nc + c))) [0..<length d div nc]"
    unfolding loop_range_def
    using fold_fill_over [of "replicate (length d div nc) z"
        "nat \<lceil>rat_of_nat (length d) / rat_of_nat nc\<rceil>"
        "\<lambda>i. int16_to_float (typed_array_get d (i * nc + c))"]
      ceiling_frameCount [of "length d" nc]
    by simp
  also have "\<dots> = channel_samples d nc c"
    unfolding channel_samples_def
    by (rule map_cong) (simp_all add: in_range typed_array_get_def int16_to_float_def)
  finally show ?thesis .
qed

lemma decodeAudioData_even:
  assumes even: "even (length bytes)"
    and nc: "0 < nc" "nc \<le> maxChannels ctx"
    and frames: "nc \<le> length bytes div 2"
    and rate: "minRate ctx \<le> rate" "rate \<le> maxRate ctx"
  shows "decodeAudioData bytes ctx rate nc =
         Inr \<lparr>channels = map (channel_samples (int16_pairs bytes) nc) [0..<nc], sampleRate = rate\<rparr>"
proof -
  define d where "d = int16_pairs bytes"
  define n where "n = length d div nc"
  have len: "length d = length bytes div 2" by (simp add: d_def length_int16_pairs)
  have n_pos: "0 < n"
    unfolding n_def len using nc(1) frames by (simp add: div_greater_zero_iff)
  define b0 where "b0 = \<lparr>channels = replicate nc (replicate n (Some (0::rat))), sampleRate = rate\<rparr>"
  have cb: "createBuffer ctx nc (rat_of_nat (length d) / rat_of_nat nc) rate = Inr b0"
    using nc rate n_pos
    by (simp add: createBuffer_def Let_def floor_frameCount n_def [symmetric] b0_def)
  have loop: "fold (\<lambda>channel buf.
                 buf\<lparr>channels := (channels buf)[channel :=
                   fold (\<lambda>i channelData. typed_array_set channelData i
                           (int16_to_float (typed_array_get d (i * nc + channel))))
                        (loop_range (rat_of_nat (length d) / rat_of_nat nc))
                        (channels buf ! channel)]\<rparr>)
               [0..<nc] b0
        = b0\<lparr>channels := map (\<lambda>c. fold (\<lambda>i channelData. typed_array_set channelData i
                           (int16_to_float (typed_array_get d (i * nc + c))))
                        (loop_range (rat_of_nat (length d) / rat_of_nat nc))
                        (channels b0 ! c)) [0..<nc] @ drop nc (channels b0)\<rparr>"
    by (rule fold_channels) (simp add: b0_def)
  have chans: "map (\<lambda>c. fold (\<lambda>i channelData. typed_array_set channelData i
                           (int16_to_float (typed_array_get d (i * nc + c))))
                        (loop_range (rat_of_nat (length d) / rat_of_nat nc))
                        (channels b0 ! c)) [0..<nc]
        = map (channel_samples d nc) [0..<nc]"
    by (rule map_cong) (simp_all add: b0_def inner_loop n_def)
  show ?thesis
    using even
    by (simp add: decodeAudioData_def int16_view_def d_def [symmetric] cb loop chans Let_def)
       (simp add: b0_def)
qed

lemma channel_samples_mono:
  "channel_samples d (Suc 0) 0 = map (\<lambda>w. Some (rat_of_int (sint w) / 32768)) d"
  unfolding channel_samples_def
  using map_nth_upt [of "\<lambda>w. Some (rat_of_int (sint w) / 32768)" d] by simp

lemma trunc_bounds:
  assumes "- 1 \<le> x" and "x < 1"
  shows "- 32768 \<le> trunc (x * 32768)" and "trunc (x * 32768) < 32768"
  using assms unfolding trunc_def by (auto simp: le_floor_iff floor_less_iff le_ceiling_iff ceiling_less_iff) 

lemma trunc_error: "\<bar>rat_of_int (trunc y) - y\<bar> < 1"
  unfolding trunc_def by (auto simp: abs_if) linarith+

lemma sint_to_int16:
  assumes "- 1 \<le> x" and "x < 1"
  shows "sint (to_int16 (x * 32768)) = trunc (x * 32768)"
  unfolding to_int16_def using trunc_bounds [OF assms]
  by (simp add: sint_sbintrunc' signed_take_bit_int_eq_self)

lemma quantization_error:
  assumes "- 1 \<le> x" and "x < 1"
  shows "\<bar>rat_of_int (sint (to_int16 (x * 32768))) / 32768 - x\<bar> < 1 / 32768"
proof -
  have "\<bar>rat_of_int (trunc (x * 32768)) - x * 32768\<bar> < 1" by (rule trunc_error)
  then have "\<bar>(rat_of_int (trunc (x * 32768)) - x * 32768) / 32768\<bar> < 1 / 32768"
    by (simp add: abs_divide divide_strict_right_mono)
  then show ?thesis by (simp add: sint_to_int16 [OF assms] diff_divide_distrib)
qed

section \<open>Properties of the codec helpers\<close>

lemma decode_createBlob:
  "decode (data (createBlob samples)) = Inr (uint8_view (map (\<lambda>x. to_int16 (x * 32768)) samples))"
  by (simp only: createBlob_data decode_encode)

lemma pcm_roundtrip_below_one:
  assumes ne: "samples \<noteq> []"
    and range: "\<forall>x \<in> set samples. - 1 \<le> x \<and> x < 1"
    and ctx: "1 \<le> maxChannels ctx" "minRate ctx \<le> rate" "rate \<le> maxRate ctx"
  shows "\<exists>bytes out.
           decode (data (createBlob samples)) = Inr bytes
         \<and> decodeAudioData bytes ctx rate 1 = Inr \<lparr>channels = [map Some out], sampleRate = rate\<rparr>
         \<and> length out = length samples
         \<and> (\<forall>i < length samples. \<bar>out ! i - samples ! i\<bar> < 1 / 32768)"
proof -
  define ws where "ws = map (\<lambda>x. to_int16 (x * 32768)) samples"
  define bytes where "bytes = uint8_view ws"
  define out where "out = map (\<lambda>w. rat_of_int (sint w) / 32768) ws"
  have dec: "decode (data (createBlob samples)) = Inr bytes"
    by (simp add: decode_createBlob bytes_def ws_def)
  have len: "length bytes = 2 * length samples"
    by (simp add: bytes_def length_uint8_view ws_def)
  have "decodeAudioData bytes ctx rate 1 =
        Inr \<lparr>channels = map (channel_samples (int16_pairs bytes) 1) [0..<1], sampleRate = rate\<rparr>"
    using ne ctx by (intro decodeAudioData_even) (simp_all add: len Suc_le_eq)
  then have aud: "decodeAudioData bytes ctx rate 1 = Inr \<lparr>channels = [map Some out], sampleRate = rate\<rparr>"
    by (simp add: bytes_def int16_pairs_uint8_view channel_samples_mono out_def o_def)
  have err: "\<bar>out ! i - samples ! i\<bar> < 1 / 32768" if "i < length samples" for i
  proof -
    from that have "samples ! i \<in> set samples" by simp
    with range have "- 1 \<le> samples ! i" "samples ! i < 1" by auto
    then have "\<bar>rat_of_int (sint (to_int16 (samples ! i * 32768))) / 32768 - samples ! i\<bar> < 1 / 32768"
      by (rule quantization_error)
    moreover have "out ! i = rat_of_int (sint (to_int16 (samples ! i * 32768))) / 32768"
      using that by (simp add: out_def ws_def)
    ultimately show ?thesis by (simp only:)
  qed
  show ?thesis
    using dec aud err by (intro exI [of _ bytes] exI [of _ out]) (simp add: out_def ws_def)
qed

text \<open>
  Claim C1 (PCM round trip within \<open>1 / 32768\<close> for samples in \<open>[-1, 1]\<close>): at the
  one-sample frame \<open>[1]\<close> the product \<open>32768\<close> does not fit a signed 16-bit
  integer and is stored as \<open>-32768\<close>; the bytes are \<open>00 80\<close> and decode to the sample
  \<open>-1\<close>, at distance \<open>2\<close> from the input. (For samples in \<open>[-1, 1)\<close> the bound
  holds: \<open>pcm_roundtrip_below_one\<close>.)
\<close>

theorem pcm_roundtrip_fails_at_one:
  "decode (data (createBlob [1])) = Inr [0, 128]
   \<and> decodeAudioData [0, 128] example_ctx 16000 1 = Inr \<lparr>channels = [[Some (- 1)]], sampleRate = 16000\<rparr>
   \<and> \<not> \<bar>(- 1 :: rat) - 1\<bar> \<le> 1 / 32768"
  by code_simp

text \<open>
  Claim C2, as stated, fails: six bytes are three 16-bit samples, and with two channels
  \<open>6\<close> is not a multiple of \<open>2 * 2\<close>, yet \<open>decodeAudioData\<close> returns a buffer of
  one frame per channel and drops the third sample.
\<close>

theorem decodeAudioData_truncates:
  "\<not> (2 * 2) dvd length [1, 0, 2, 0, 3, 0 :: byte]
   \<and> decodeAudioData [1, 0, 2, 0, 3, 0] example_ctx 24000 2
       = Inr \<lparr>channels = [[Some (1 / 32768)], [Some (1 / 16384)]], sampleRate = 24000\<rparr>"
  by code_simp

text \<open>
  Claim C2, amended: \<open>decodeAudioData\<close> fails with the \<open>RangeError\<close> of the
  \<open>Int16Array\<close> constructor on every buffer of odd length. On a buffer of even length
  holding at least \<open>nc\<close> samples, with a supported channel count and rate, it does not
  fail, whether or not the sample count is a multiple of \<open>nc\<close>: every channel gets
  \<open>\<lfloor>count / nc\<rfloor>\<close> frames, channel \<open>c\<close> frame \<open>i\<close> being sample \<open>i * nc + c\<close>
  divided by \<open>32768\<close>, and the remaining samples are ignored.
\<close>

theorem decodeAudioData_malformed:
  "(odd (length bytes) \<longrightarrow> decodeAudioData bytes ctx rate nc = Inl RangeError)
   \<and> (even (length bytes) \<and> 0 < nc \<and> nc \<le> maxChannels ctx \<and> nc \<le> length bytes div 2
        \<and> minRate ctx \<le> rate \<and> rate \<le> maxRate ctx \<longrightarrow>
      decodeAudioData bytes ctx rate nc =
        Inr \<lparr>channels =
               map (\<lambda>c. map (\<lambda>i. Some (rat_of_int (sint (int16_pairs bytes ! (i * nc + c))) / 32768))
                          [0..<length bytes div 2 div nc])
                   [0..<nc],
             sampleRate = rate\<rparr>)"
proof (intro conjI impI)
  assume "odd (length bytes)"
  then show "decodeAudioData bytes ctx rate nc = Inl RangeError"
    by (simp add: decodeAudioData_def int16_view_def)
next
  assume a: "even (length bytes) \<and> 0 < nc \<and> nc \<le> maxChannels ctx \<and> nc \<le> length bytes div 2
        \<and> minRate ctx \<le> rate \<and> rate \<le> maxRate ctx"
  have cs: "channel_samples (int16_pairs bytes) nc =
        (\<lambda>c. map (\<lambda>i. Some (rat_of_int (sint (int16_pairs bytes ! (i * nc + c))) / 32768))
                          [0..<length bytes div 2 div nc])"
    by (rule ext) (simp add: channel_samples_def length_int16_pairs)
  from a show "decodeAudioData bytes ctx rate nc =
        Inr \<lparr>channels =
               map (\<lambda>c. map (\<lambda>i. Some (rat_of_int (sint (int16_pairs bytes ! (i * nc + c))) / 32768))
                          [0..<length bytes div 2 div nc])
                   [0..<nc],
             sampleRate = rate\<rparr>"
    by (simp add: decodeAudioData_even cs)
qed

text \<open>Three bytes, and six bytes on two channels.\<close>

theorem decodeAudioData_malformed_witness:
  "(odd (length [1, 0, 2 :: byte])
    \<and> decodeAudioData [1, 0, 2] example_ctx 24000 2 = Inl RangeError)
   \<and> (even (length [1, 0, 2, 0, 3, 0 :: byte]) \<and> (0::nat) < 2 \<and> 2 \<le> maxChannels example_ctx
      \<and> 2 \<le> length [1, 0, 2, 0, 3, 0 :: byte] div 2
      \<and> minRate example_ctx \<le> 24000 \<and> 24000 \<le> maxRate example_ctx
      \<and> decodeAudioData [1, 0, 2, 0, 3, 0] example_ctx 24000 2 =
        Inr \<lparr>channels =
               map (\<lambda>c. map (\<lambda>i. Some (rat_of_int (sint (int16_pairs [1, 0, 2, 0, 3, 0] ! (i * 2 + c))) / 32768))
                          [0..<length [1, 0, 2, 0, 3, 0 :: byte] div 2 div 2])
                   [0..<2],
             sampleRate = 24000\<rparr>)"
  using decodeAudioData_malformed [of "[1, 0, 2]" example_ctx 24000 2]
    decodeAudioData_malformed [of "[1, 0, 2, 0, 3, 0]" example_ctx 24000 2]
  by (simp add: example_ctx_def)

text \<open>
  Claim C5: \<open>encode\<close> maps each byte to the character with that code and applies
  base64 to the concatenation, and \<open>decode (encode b)\<close> returns \<open>b\<close> for every byte
  sequence \<open>b\<close>.
\<close>

theorem encode_decode_roundtrip:
  "encode b = btoa (map fromCharCode b) \<and> decode (encode b) = Inr b"
  by (simp add: decode_encode) (simp add: encode_def fold_snoc_map)

text \<open>
  Claim C7: for every captured frame the blob has the MIME type \<open>audio/pcm;rate=16000\<close>
  and its base64 data decodes to exactly two bytes per sample, \<open>8192\<close> bytes for a frame
  of \<open>bufferSize = 4096\<close> samples.
\<close>

theorem createBlob_frame:
  "mimeType (createBlob frame) = ''audio/pcm;rate=16000''
   \<and> (\<exists>bytes. decode (data (createBlob frame)) = Inr bytes
        \<and> length bytes = 2 * length frame
        \<and> (length frame = bufferSize \<longrightarrow> length bytes = 8192))"
  by (simp add: decode_createBlob length_uint8_view bufferSize_def) (simp add: createBlob_def Let_def)

text \<open>A silent frame of 4096 samples.\<close>

theorem createBlob_frame_witness:
  "length (replicate 4096 (0::rat)) = bufferSize
   \<and> mimeType (createBlob (replicate 4096 0)) = ''audio/pcm;rate=16000''
   \<and> (\<exists>bytes. decode (data (createBlob (replicate 4096 0))) = Inr bytes \<and> length bytes = 8192)"
  using createBlob_frame [of "replicate 4096 0"]
  by (simp add: bufferSize_def)

section \<open>Playback scheduling\<close>



















lemma turn:
  assumes "pending s = []" and "\<not> is_interrupted message"
  shows "pending (run [Message outputCtx message, Resume] s) = []
       \<and> has_output (run [Message outputCtx message, Resume] s) = has_output s
       \<and> trace (run [Message outputCtx message, Resume] s)
           = trace s @ schedule (allocated s) (nextStartTime (audioPlaybackRef s))
                         [arrival_of (has_output s) (outputCtx, message)]
       \<and> nextStartTime (audioPlaybackRef (run [Message outputCtx message, Resume] s))
           = schedule_end (nextStartTime (audioPlaybackRef s))
               [arrival_of (has_output s) (outputCtx, message)]
       \<and> allocated (run [Message outputCtx message, Resume] s)
           = allocated s + length (schedule (allocated s) (nextStartTime (audioPlaybackRef s))
                                     [arrival_of (has_output s) (outputCtx, message)])"
  using assms
  by (auto simp: run_def handleLiveMessage_def handleLiveMessage_resume_def arrival_of_def
        after_audio_def has_output_def Let_def
      split: sum.splits option.splits)









section \<open>Interruption\<close>






section \<open>Session stop\<close>

lemma option_trace:
  "(case x of None \<Rightarrow> s | Some v \<Rightarrow> s\<lparr>trace := trace s @ f v\<rparr>)
   = s\<lparr>trace := trace s @ (case x of None \<Rightarrow> [] | Some v \<Rightarrow> f v)\<rparr>"
  by (cases x) simp_all

lemma option_session:
  "(case sessionPromiseRef s of
      None \<Rightarrow> s
    | Some p \<Rightarrow> s\<lparr>trace := trace s @ [SessionClose p], sessionPromiseRef := None\<rparr>)
   = s\<lparr>trace := trace s @ (case sessionPromiseRef s of None \<Rightarrow> [] | Some p \<Rightarrow> [SessionClose p]),
       sessionPromiseRef := None\<rparr>"
  by (cases s, cases "sessionPromiseRef s") simp_all

lemma stopRecording_well_typed:
  assumes "well_typed s"
  shows "stopRecording s =
    (None,
     s\<lparr>isRecording := False, sessionPromiseRef := None, audioContextRef := None,
       audioPlaybackRef := \<lparr>nextStartTime = 0, sources = []\<rparr>,
       trace := trace s
             @ (case mediaStreamRef s of None \<Rightarrow> [] | Some tracks \<Rightarrow> map TrackStop tracks)
             @ (case sessionPromiseRef s of None \<Rightarrow> [] | Some p \<Rightarrow> [SessionClose p])
             @ (case audioContextRef s of
                  None \<Rightarrow> []
                | Some refs \<Rightarrow>
                    (case scriptProcessor refs of None \<Rightarrow> [] | Some n \<Rightarrow> [NodeDisconnect n])
                    @ (case source refs of None \<Rightarrow> [] | Some n \<Rightarrow> [NodeDisconnect n])
                    @ [ContextClose (the (input refs)), ContextClose (the (output refs))])
             @ map SourceStop (sources (audioPlaybackRef s))\<rparr>)"
proof -
  show ?thesis
  proof (cases "audioContextRef s")
    case None
    then show ?thesis
      unfolding stopRecording_def Let_def option_trace option_session
      by (cases s) (simp add: stop_playback_def)
  next
    case (Some refs)
    with assms obtain i out where io: "input refs = Some i" "output refs = Some out"
      by (auto simp: well_typed_def)
    show ?thesis
      unfolding stopRecording_def Let_def option_trace option_session
      using Some io by (simp add: stop_playback_def)
  qed
qed

text \<open>
  On the states that the declared type of \<open>audioContextRef\<close> describes, a second call
  right after the first stops the tracks again and changes nothing else.
\<close>

lemma stopRecording_typed_idempotent:
  assumes "well_typed s"
  shows "\<exists>s1 s2.
           stopRecording s = (None, s1) \<and> stopRecording s1 = (None, s2)
         \<and> trace s1 = trace s
             @ (case mediaStreamRef s of None \<Rightarrow> [] | Some tracks \<Rightarrow> map TrackStop tracks)
             @ (case sessionPromiseRef s of None \<Rightarrow> [] | Some p \<Rightarrow> [SessionClose p])
             @ (case audioContextRef s of
                  None \<Rightarrow> []
                | Some refs \<Rightarrow>
                    (case scriptProcessor refs of None \<Rightarrow> [] | Some n \<Rightarrow> [NodeDisconnect n])
                    @ (case source refs of None \<Rightarrow> [] | Some n \<Rightarrow> [NodeDisconnect n])
                    @ [ContextClose (the (input refs)), ContextClose (the (output refs))])
             @ map SourceStop (sources (audioPlaybackRef s))
         \<and> \<not> isRecording s1 \<and> sessionPromiseRef s1 = None \<and> audioContextRef s1 = None
         \<and> sources (audioPlaybackRef s1) = [] \<and> nextStartTime (audioPlaybackRef s1) = 0
         \<and> s2 = s1\<lparr>trace := trace s1
                      @ (case mediaStreamRef s of None \<Rightarrow> [] | Some tracks \<Rightarrow> map TrackStop tracks)\<rparr>"
proof -
  define s1 where "s1 = snd (stopRecording s)"
  have 1: "stopRecording s = (None, s1)"
    unfolding s1_def by (simp add: stopRecording_well_typed [OF assms])
  have p: "\<not> isRecording s1" "sessionPromiseRef s1 = None" "audioContextRef s1 = None"
    "sources (audioPlaybackRef s1) = []" "nextStartTime (audioPlaybackRef s1) = 0"
    "mediaStreamRef s1 = mediaStreamRef s"
    unfolding s1_def by (simp_all add: stopRecording_well_typed [OF assms])
  have t: "trace s1 = trace s
             @ (case mediaStreamRef s of None \<Rightarrow> [] | Some tracks \<Rightarrow> map TrackStop tracks)
             @ (case sessionPromiseRef s of None \<Rightarrow> [] | Some p \<Rightarrow> [SessionClose p])
             @ (case audioContextRef s of
                  None \<Rightarrow> []
                | Some refs \<Rightarrow>
                    (case scriptProcessor refs of None \<Rightarrow> [] | Some n \<Rightarrow> [NodeDisconnect n])
                    @ (case source refs of None \<Rightarrow> [] | Some n \<Rightarrow> [NodeDisconnect n])
                    @ [ContextClose (the (input refs)), ContextClose (the (output refs))])
             @ map SourceStop (sources (audioPlaybackRef s))"
    unfolding s1_def by (simp add: stopRecording_well_typed [OF assms])
  have w1: "well_typed s1" using p(3) by (simp add: well_typed_def)
  have 2: "stopRecording s1 = (None, s1\<lparr>trace := trace s1
                      @ (case mediaStreamRef s of None \<Rightarrow> [] | Some tracks \<Rightarrow> map TrackStop tracks)\<rparr>)"
    unfolding stopRecording_well_typed [OF w1] using p
    by (cases s1, cases "audioPlaybackRef s1") simp
  show ?thesis using 1 2 t p by blast
qed

text \<open>
  Claim C6 (stopping is idempotent and free of errors from any state): the recording is
  started and stopped before the session has opened, and \<open>onOpen\<close> runs afterwards. It
  spreads the \<open>null\<close> ref and stores an object that holds the two new nodes and no
  contexts. \<open>stopRecording\<close> then throws a \<open>TypeError\<close> at \<open>input.close()\<close>; the
  statements after it are skipped, so the ref is not cleared, and a second call throws
  again.
\<close>

theorem stopRecording_throws_after_late_open:
  "late_open_state =
     \<lparr>isRecording = False, mediaStreamRef = Some [0], sessionPromiseRef = None,
      audioContextRef = Some \<lparr>input = None, output = None, scriptProcessor = Some 5, source = Some 4\<rparr>,
      audioPlaybackRef = \<lparr>nextStartTime = 0, sources = []\<rparr>, pending = [], allocated = 6,
      trace = [TrackStop 0, SessionClose 3, ContextClose 1, ContextClose 2, NodeConnect 4, NodeConnect 5]\<rparr>
   \<and> fst (stopRecording late_open_state) = Some TypeError
   \<and> audioContextRef (snd (stopRecording late_open_state))
       = Some \<lparr>input = None, output = None, scriptProcessor = Some 5, source = Some 4\<rparr>
   \<and> fst (stopRecording (snd (stopRecording late_open_state))) = Some TypeError"
  by code_simp

section \<open>Video generation\<close>

lemma poll_loop_reaches:
  assumes "operation_after getOperation submitted k = Some finished" and "done finished"
    and "\<forall>j < k. \<exists>operation. operation_after getOperation submitted j = Some operation \<and> \<not> done operation"
  shows "i \<le> k \<Longrightarrow> operation_after getOperation submitted i = Some operation \<Longrightarrow>
         \<exists>progress'. poll_loop getOperation i operation progress = Some (Inr finished, progress')"
proof (induction "k - i" arbitrary: i operation progress)
  case 0
  then have "i = k" by simp
  with 0 assms(1) have "operation = finished" by simp
  with assms(2) show ?case by (simp add: poll_loop.simps)
next
  case (Suc n)
  then have lt: "i < k" by simp
  with assms(3) Suc.prems(2) have nd: "\<not> done operation" by auto
  have "\<exists>operation'. operation_after getOperation submitted (Suc i) = Some operation'"
  proof (cases "Suc i = k")
    case True
    with assms(1) show ?thesis by blast
  next
    case False
    with lt have "Suc i < k" by simp
    with assms(3) show ?thesis by blast
  qed
  then obtain operation' where nxt: "operation_after getOperation submitted (Suc i) = Some operation'"
    by blast
  with Suc.prems(2) have g: "getOperation i = Inr operation'"
    by (auto split: sum.splits)
  have "n = k - Suc i" "Suc i \<le> k" using Suc.hyps(2) lt by simp_all
  from Suc.hyps(1) [OF this nxt]
  obtain progress' where
    "poll_loop getOperation (Suc i) operation'
       (progress @ [progressMessages ! (i mod length progressMessages)]) = Some (Inr finished, progress')"
    by blast
  then show ?case
    using nd g by (subst poll_loop.simps) (simp add: Let_def)
qed

text \<open>
  Claim C8: when the submission succeeds and the job reaches a done state at the \<open>k\<close>-th
  poll (the polls before it succeed and report it not done), \<open>generateVideo\<close> returns;
  it returns a media URL exactly when the finished operation has a download link and the
  download succeeds (the fetch resolves with an ok response whose blob can be read); it
  throws ``no link'' when the operation has no link and ``Failed to download video'' when
  the response is not ok.
\<close>

theorem generateVideo_outcome:
  assumes "generateVideos service
             \<lparr>model = ''veo-3.1-fast-generate-preview'', prompt = userPrompt, image_opt = img,
              numberOfVideos = 1, resolution = ''720p'', aspectRatio = ratio\<rparr> = Inr submitted"
    and "operation_after (getVideosOperation service) submitted k = Some finished"
    and "done finished"
    and "\<forall>j < k. \<exists>operation. operation_after (getVideosOperation service) submitted j = Some operation
                   \<and> \<not> done operation"
  shows "\<exists>result progress.
           generateVideo service apiKey userPrompt ratio img = Some (result, progress)
         \<and> ((\<exists>url. result = Inr url) \<longleftrightarrow>
              (\<exists>link response videoBlob.
                 uri finished = Some link \<and> link \<noteq> []
               \<and> fetch service (link @ ''&key='' @ apiKey) = Inr response
               \<and> ok response \<and> blob response = Inr videoBlob))
         \<and> (\<forall>link response videoBlob.
               uri finished = Some link \<and> link \<noteq> []
             \<and> fetch service (link @ ''&key='' @ apiKey) = Inr response
             \<and> ok response \<and> blob response = Inr videoBlob \<longrightarrow>
               result = Inr (createObjectURL service videoBlob))
         \<and> (uri finished = None \<or> uri finished = Some [] \<longrightarrow>
               result = Inl (Error ''Video generation failed or returned no link.''))
         \<and> (\<forall>link response.
               uri finished = Some link \<and> link \<noteq> []
             \<and> fetch service (link @ ''&key='' @ apiKey) = Inr response \<and> \<not> ok response \<longrightarrow>
               result = Inl (Error (''Failed to download video: '' @ statusText response)))"
proof -
  from poll_loop_reaches [OF assms(2,3,4), of 0 submitted "[''Warming up the creativity engines...'']"]
  obtain progress' where
    loop: "poll_loop (getVideosOperation service) 0 submitted [''Warming up the creativity engines...'']
           = Some (Inr finished, progress')"
    by auto
  have gen: "generateVideo service apiKey userPrompt ratio img
             = Some (download service apiKey finished progress')"
    using assms(1) loop by (simp add: generateVideo_def Let_def)
  define result where "result = fst (download service apiKey finished progress')"
  have 1: "generateVideo service apiKey userPrompt ratio img
           = Some (result, snd (download service apiKey finished progress'))"
    by (simp add: gen result_def)
  have 2: "(\<exists>url. result = Inr url) \<longleftrightarrow>
              (\<exists>link response videoBlob.
                 uri finished = Some link \<and> link \<noteq> []
               \<and> fetch service (link @ ''&key='' @ apiKey) = Inr response
               \<and> ok response \<and> blob response = Inr videoBlob)"
    unfolding result_def download_def Let_def
    by (auto split: option.splits sum.splits)
  have 3: "result = Inr (createObjectURL service videoBlob)"
    if "uri finished = Some link \<and> link \<noteq> []
             \<and> fetch service (link @ ''&key='' @ apiKey) = Inr response
             \<and> ok response \<and> blob response = Inr videoBlob" for link response videoBlob
    using that unfolding result_def download_def Let_def by simp
  have 4: "result = Inl (Error ''Video generation failed or returned no link.'')"
    if "uri finished = None \<or> uri finished = Some []"
    using that unfolding result_def download_def Let_def by auto
  have 5: "result = Inl (Error (''Failed to download video: '' @ statusText response))"
    if "uri finished = Some link \<and> link \<noteq> []
             \<and> fetch service (link @ ''&key='' @ apiKey) = Inr response \<and> \<not> ok response"
    for link response
    using that unfolding result_def download_def Let_def by simp
  show ?thesis using 1 2 3 4 5 by blast
qed

text \<open>A job that is done at the second poll.\<close>

theorem generateVideo_outcome_witness:
  "generateVideos example_service
     \<lparr>model = ''veo-3.1-fast-generate-preview'', prompt = ''a cat'', image_opt = None,
      numberOfVideos = 1, resolution = ''720p'', aspectRatio = ''9:16''\<rparr>
     = Inr \<lparr>done = False, uri = None\<rparr>
   \<and> operation_after (getVideosOperation example_service) \<lparr>done = False, uri = None\<rparr> 2
       = Some \<lparr>done = True, uri = Some ''https://video/1?alt=media''\<rparr>
   \<and> done \<lparr>done = True, uri = Some ''https://video/1?alt=media''\<rparr>
   \<and> operation_after (getVideosOperation example_service) \<lparr>done = False, uri = None\<rparr> 0
       = Some \<lparr>done = False, uri = None\<rparr>
   \<and> operation_after (getVideosOperation example_service) \<lparr>done = False, uri = None\<rparr> 1
       = Some \<lparr>done = False, uri = None\<rparr>
   \<and> \<not> done \<lparr>done = False, uri = None\<rparr>
   \<and> (\<exists>progress. generateVideo example_service ''KEY'' ''a cat'' ''9:16'' None
                    = Some (Inr ''blob:mp4'', progress))"
proof -
  have h1: "generateVideos example_service
     \<lparr>model = ''veo-3.1-fast-generate-preview'', prompt = ''a cat'', image_opt = None,
      numberOfVideos = 1, resolution = ''720p'', aspectRatio = ''9:16''\<rparr>
     = Inr \<lparr>done = False, uri = None\<rparr>"
    by (simp add: example_service_def)
  have h2: "operation_after (getVideosOperation example_service) \<lparr>done = False, uri = None\<rparr> 2
       = Some \<lparr>done = True, uri = Some ''https://video/1?alt=media''\<rparr>"
    by (simp add: example_service_def numeral_2_eq_2)
  have h3: "done \<lparr>done = True, uri = Some ''https://video/1?alt=media''\<rparr>"
    by simp
  have h4: "\<forall>j < 2. \<exists>operation.
          operation_after (getVideosOperation example_service) \<lparr>done = False, uri = None\<rparr> j = Some operation
        \<and> \<not> done operation"
    by (simp add: example_service_def numeral_2_eq_2 less_Suc_eq)
  from generateVideo_outcome [OF h1 h2 h3 h4, of "''KEY''"]
  obtain result progress where
    g: "generateVideo example_service ''KEY'' ''a cat'' ''9:16'' None = Some (result, progress)"
    and r: "\<forall>link response videoBlob.
               uri \<lparr>done = True, uri = Some ''https://video/1?alt=media''\<rparr> = Some link \<and> link \<noteq> []
             \<and> fetch example_service (link @ ''&key='' @ ''KEY'') = Inr response
             \<and> ok response \<and> blob response = Inr videoBlob \<longrightarrow>
               result = Inr (createObjectURL example_service videoBlob)"
    by blast
  have "result = Inr (createObjectURL example_service ''mp4'')"
    by (rule r [rule_format, of "''https://video/1?alt=media''"
          "\<lparr>ok = True, statusText = ''OK'', blob = Inr ''mp4''\<rparr>" "''mp4''"])
       (simp add: example_service_def)
  then have "result = Inr ''blob:mp4''" by (simp add: example_service_def)
  moreover have "operation_after (getVideosOperation example_service) \<lparr>done = False, uri = None\<rparr> 0
       = Some \<lparr>done = False, uri = None\<rparr>"
    "operation_after (getVideosOperation example_service) \<lparr>done = False, uri = None\<rparr> 1
       = Some \<lparr>done = False, uri = None\<rparr>"
    "\<not> done \<lparr>done = False, uri = None\<rparr>"
    by (simp_all add: example_service_def)
  ultimately show ?thesis using g h1 h2 h3 by blast
qed

section \<open>API-key selection gate\<close>

text \<open>
  Claim C9: when \<open>openSelectKey\<close> resolves, \<open>handleSelectKey\<close> sets and reports the key
  as selected, whatever \<open>hasSelectedApiKey\<close> would answer and without calling it; when
  \<open>window.aistudio\<close> is absent or \<open>openSelectKey\<close> is not a function, the handler leaves
  the state as it is.
\<close>

theorem handleSelectKey_assumes_success:
  "(\<forall>host. aistudio = Some host \<and> openSelectKey host = Some (Inr ()) \<longrightarrow>
      handleSelectKey aistudio s =
        s\<lparr>hostCalls := hostCalls s @ [OpenSelectKey], isKeySelected := True,
          reported := reported s @ [True]\<rparr>)
   \<and> (aistudio = None \<or> (\<exists>host. aistudio = Some host \<and> openSelectKey host = None) \<longrightarrow>
        handleSelectKey aistudio s = s)"
  by (auto simp: handleSelectKey_def report_def Let_def)

text \<open>A host whose dialog resolves although it reports no key, no host, and a host without the dialog.\<close>

theorem handleSelectKey_assumes_success_witness:
  "openSelectKey \<lparr>hasSelectedApiKey = Some (Inr False), openSelectKey = Some (Inr ())\<rparr> = Some (Inr ())
   \<and> handleSelectKey (Some \<lparr>hasSelectedApiKey = Some (Inr False), openSelectKey = Some (Inr ())\<rparr>)
        initial_selector
       = initial_selector\<lparr>hostCalls := [OpenSelectKey], isKeySelected := True, reported := [True]\<rparr>
   \<and> handleSelectKey None initial_selector = initial_selector
   \<and> openSelectKey \<lparr>hasSelectedApiKey = Some (Inr True), openSelectKey = None\<rparr> = None
   \<and> handleSelectKey (Some \<lparr>hasSelectedApiKey = Some (Inr True), openSelectKey = None\<rparr>) initial_selector
       = initial_selector"
  using handleSelectKey_assumes_success
      [of "Some \<lparr>hasSelectedApiKey = Some (Inr False), openSelectKey = Some (Inr ())\<rparr>" initial_selector]
    handleSelectKey_assumes_success [of None initial_selector]
    handleSelectKey_assumes_success
      [of "Some \<lparr>hasSelectedApiKey = Some (Inr True), openSelectKey = None\<rparr>" initial_selector]
  by (simp add: initial_selector_def)

text \<open>
  Claim C10: \<open>checkApiKey\<close> always ends the checking state, and it sets and reports the
  key as not selected whenever \<open>window.aistudio\<close> is absent, \<open>hasSelectedApiKey\<close> is not
  a function, or the check throws.
\<close>

theorem checkApiKey_fails_closed:
  "\<not> isChecking (checkApiKey aistudio s)
   \<and> (aistudio = None
       \<or> (\<exists>host. aistudio = Some host
             \<and> (hasSelectedApiKey host = None \<or> (\<exists>e. hasSelectedApiKey host = Some (Inl e)))) \<longrightarrow>
        \<not> isKeySelected (checkApiKey aistudio s)
      \<and> reported (checkApiKey aistudio s) = reported s @ [False])"
  by (auto simp: checkApiKey_def report_def Let_def split: option.splits sum.splits)

text \<open>No host, a host without the check, a check that throws, and a check that succeeds.\<close>

theorem checkApiKey_fails_closed_witness:
  "\<not> isChecking (checkApiKey None initial_selector)
   \<and> \<not> isKeySelected (checkApiKey None initial_selector)
   \<and> reported (checkApiKey None initial_selector) = reported initial_selector @ [False]
   \<and> hasSelectedApiKey \<lparr>hasSelectedApiKey = None, openSelectKey = Some (Inr ())\<rparr> = None
   \<and> reported (checkApiKey (Some \<lparr>hasSelectedApiKey = None, openSelectKey = Some (Inr ())\<rparr>)
        (initial_selector\<lparr>isKeySelected := True\<rparr>)) = [False]
   \<and> hasSelectedApiKey \<lparr>hasSelectedApiKey = Some (Inl (Error ''host'')), openSelectKey = None\<rparr>
       = Some (Inl (Error ''host''))
   \<and> \<not> isKeySelected (checkApiKey
         (Some \<lparr>hasSelectedApiKey = Some (Inl (Error ''host'')), openSelectKey = None\<rparr>)
         (initial_selector\<lparr>isKeySelected := True\<rparr>))
   \<and> \<not> isChecking (checkApiKey
         (Some \<lparr>hasSelectedApiKey = Some (Inr True), openSelectKey = None\<rparr>) initial_selector)"
  using checkApiKey_fails_closed [of None initial_selector]
    checkApiKey_fails_closed
      [of "Some \<lparr>hasSelectedApiKey = None, openSelectKey = Some (Inr ())\<rparr>"
          "initial_selector\<lparr>isKeySelected := True\<rparr>"]
    checkApiKey_fails_closed
      [of "Some \<lparr>hasSelectedApiKey = Some (Inl (Error ''host'')), openSelectKey = None\<rparr>"
          "initial_selector\<lparr>isKeySelected := True\<rparr>"]
    checkApiKey_fails_closed
      [of "Some \<lparr>hasSelectedApiKey = Some (Inr True), openSelectKey = None\<rparr>" initial_selector]
  by (simp add: initial_selector_def)

end
